theory Spec2Isabelle
  imports Complex_Main "HOL-Library.Word"
begin

section \<open>JavaScript numbers\<close>

text \<open>
  Every number of the script is an IEEE double. The model keeps the four kinds of value a
  double can be: a finite number (an exact rational here), the two infinities, and NaN.
  Arithmetic on finite values is exact: the rounding of double arithmetic and the sign of
  zero are not modelled. Division by a zero divisor gives NaN or an infinity, as in
  JavaScript; nothing raises. A comparison with NaN is false, and \<open>===\<close> on NaN is
  false.
\<close>

datatype jsnum = Number rat | Infinity | NegInfinity | NaN

fun jsneg :: "jsnum \<Rightarrow> jsnum" where
  "jsneg (Number a) = Number (- a)"
| "jsneg Infinity = NegInfinity"
| "jsneg NegInfinity = Infinity"
| "jsneg NaN = NaN"

fun jsadd :: "jsnum \<Rightarrow> jsnum \<Rightarrow> jsnum" where
  "jsadd (Number a) (Number b) = Number (a + b)"
| "jsadd NaN _ = NaN"
| "jsadd _ NaN = NaN"
| "jsadd Infinity NegInfinity = NaN"
| "jsadd NegInfinity Infinity = NaN"
| "jsadd Infinity _ = Infinity"
| "jsadd _ Infinity = Infinity"
| "jsadd NegInfinity _ = NegInfinity"
| "jsadd _ NegInfinity = NegInfinity"

definition jssub :: "jsnum \<Rightarrow> jsnum \<Rightarrow> jsnum" where
  "jssub a b = jsadd a (jsneg b)"

text \<open>The infinity of the sign of a finite, non-zero factor.\<close>

definition signed_inf :: "bool \<Rightarrow> jsnum" where
  "signed_inf positive = (if positive then Infinity else NegInfinity)"

fun jsmul :: "jsnum \<Rightarrow> jsnum \<Rightarrow> jsnum" where
  "jsmul (Number a) (Number b) = Number (a * b)"
| "jsmul NaN _ = NaN"
| "jsmul _ NaN = NaN"
| "jsmul (Number a) Infinity = (if a = 0 then NaN else signed_inf (0 < a))"
| "jsmul (Number a) NegInfinity = (if a = 0 then NaN else signed_inf (a < 0))"
| "jsmul Infinity (Number b) = (if b = 0 then NaN else signed_inf (0 < b))"
| "jsmul NegInfinity (Number b) = (if b = 0 then NaN else signed_inf (b < 0))"
| "jsmul Infinity Infinity = Infinity"
| "jsmul NegInfinity NegInfinity = Infinity"
| "jsmul Infinity NegInfinity = NegInfinity"
| "jsmul NegInfinity Infinity = NegInfinity"

text \<open>
  Division: a finite value over zero is NaN for 0/0 and an infinity of the sign of the
  numerator otherwise (the zero divisor is taken as +0).
\<close>

fun jsdiv :: "jsnum \<Rightarrow> jsnum \<Rightarrow> jsnum" where
  "jsdiv (Number a) (Number b) =
     (if b = 0 then (if a = 0 then NaN else signed_inf (0 < a)) else Number (a / b))"
| "jsdiv NaN _ = NaN"
| "jsdiv _ NaN = NaN"
| "jsdiv (Number a) Infinity = Number 0"
| "jsdiv (Number a) NegInfinity = Number 0"
| "jsdiv Infinity (Number b) = signed_inf (0 \<le> b)"
| "jsdiv NegInfinity (Number b) = signed_inf (b < 0)"
| "jsdiv Infinity Infinity = NaN"
| "jsdiv Infinity NegInfinity = NaN"
| "jsdiv NegInfinity Infinity = NaN"
| "jsdiv NegInfinity NegInfinity = NaN"

fun jslt :: "jsnum \<Rightarrow> jsnum \<Rightarrow> bool" where
  "jslt (Number a) (Number b) = (a < b)"
| "jslt NaN _ = False"
| "jslt _ NaN = False"
| "jslt NegInfinity NegInfinity = False"
| "jslt NegInfinity _ = True"
| "jslt _ NegInfinity = False"
| "jslt Infinity _ = False"
| "jslt _ Infinity = True"

definition jsgt :: "jsnum \<Rightarrow> jsnum \<Rightarrow> bool" where
  "jsgt a b = jslt b a"

text \<open>Strict equality \<open>===\<close> on numbers.\<close>

fun jseq :: "jsnum \<Rightarrow> jsnum \<Rightarrow> bool" where
  "jseq NaN _ = False"
| "jseq _ NaN = False"
| "jseq a b = (a = b)"

definition jsle :: "jsnum \<Rightarrow> jsnum \<Rightarrow> bool" where
  "jsle a b = (jslt a b \<or> jseq a b)"

definition jsge :: "jsnum \<Rightarrow> jsnum \<Rightarrow> bool" where
  "jsge a b = jsle b a"

text \<open>
  \<open>Math.max\<close> and \<open>Math.min\<close> of an argument list: NaN as soon as one argument is
  NaN, and \<open>-Infinity\<close> (\<open>Infinity\<close>) for no argument.
\<close>

fun jsmax2 :: "jsnum \<Rightarrow> jsnum \<Rightarrow> jsnum" where
  "jsmax2 NaN _ = NaN"
| "jsmax2 _ NaN = NaN"
| "jsmax2 a b = (if jslt a b then b else a)"

fun jsmin2 :: "jsnum \<Rightarrow> jsnum \<Rightarrow> jsnum" where
  "jsmin2 NaN _ = NaN"
| "jsmin2 _ NaN = NaN"
| "jsmin2 a b = (if jslt b a then b else a)"

definition Math_max :: "jsnum list \<Rightarrow> jsnum" where
  "Math_max xs = foldl jsmax2 NegInfinity xs"

definition Math_min :: "jsnum list \<Rightarrow> jsnum" where
  "Math_min xs = foldl jsmin2 Infinity xs"

text \<open>\<open>Math.round\<close>: the nearest integer, a tie going up.\<close>

fun Math_round :: "jsnum \<Rightarrow> jsnum" where
  "Math_round (Number a) = Number (of_int \<lfloor>a + 1 / 2\<rfloor>)"
| "Math_round v = v"

section \<open>Colours\<close>

text \<open>
  The objects \<open>{r, g, b}\<close> and \<open>{h, s, l}\<close> of the script. The fields carry a prefix,
  since a field name is a constant of the theory and the one-letter names are needed as
  variables.
\<close>

record color =
  col_r :: jsnum
  col_g :: jsnum
  col_b :: jsnum

record hsl =
  hsl_h :: jsnum
  hsl_s :: jsnum
  hsl_l :: jsnum

text \<open>
  \<open>rgbToHsl(r, g, b)\<close>. The variable \<open>h\<close> is declared without a value: when no case
  of the \<open>switch\<close> matches it stays \<open>undefined\<close>, and \<open>h * 360\<close> is then NaN. The
  \<open>switch\<close> compares with \<open>===\<close>, the cases in the order r, g, b.
\<close>

definition rgbToHsl :: "jsnum \<Rightarrow> jsnum \<Rightarrow> jsnum \<Rightarrow> hsl" where
  "rgbToHsl r0 g0 b0 =
     (let r = jsdiv r0 (Number 255);
          g = jsdiv g0 (Number 255);
          b = jsdiv b0 (Number 255);
          mx = Math_max [r, g, b];
          mn = Math_min [r, g, b];
          l = jsdiv (jsadd mx mn) (Number 2)
      in if jseq mx mn then
           \<lparr>hsl_h = jsmul (Number 0) (Number 360), hsl_s = Number 0, hsl_l = l\<rparr>
         else
           let d = jssub mx mn;
               s = (if jsgt l (Number 0.5)
                    then jsdiv d (jssub (jssub (Number 2) mx) mn)
                    else jsdiv d (jsadd mx mn));
               h = (if jseq mx r then
                      jsdiv (jsadd (jsdiv (jssub g b) d)
                                   (if jslt g b then Number 6 else Number 0)) (Number 6)
                    else if jseq mx g then
                      jsdiv (jsadd (jsdiv (jssub b r) d) (Number 2)) (Number 6)
                    else if jseq mx b then
                      jsdiv (jsadd (jsdiv (jssub r g) d) (Number 4)) (Number 6)
                    else NaN)
           in \<lparr>hsl_h = jsmul h (Number 360), hsl_s = s, hsl_l = l\<rparr>)"

section \<open>The classifiers\<close>

text \<open>
  The three classifiers of \<open>exhibition_js_v2.js\<close>. A decimal literal of the script
  (\<open>0.2\<close>) is the exact rational here.
\<close>

definition classifyEyeColor :: "color \<Rightarrow> string" where
  "classifyEyeColor color =
     (let hsl = rgbToHsl (col_r color) (col_g color) (col_b color);
          h = hsl_h hsl; s = hsl_s hsl; l = hsl_l hsl
      in if jslt l (Number 0.2) then ''DARK BROWN''
         else if jslt s (Number 0.15) then
           (if jslt l (Number 0.4) then ''DARK GRAY'' else ''GRAY'')
         else if jsge h (Number 180) \<and> jsle h (Number 260) then
           (if jslt l (Number 0.4) then ''DARK BLUE''
            else if jsgt l (Number 0.6) then ''LIGHT BLUE'' else ''BLUE'')
         else if jsge h (Number 80) \<and> jsle h (Number 160) then
           (if jsgt (col_b color) (jsmul (col_g color) (Number 0.7)) then ''HAZEL''
            else ''GREEN'')
         else if jsge h (Number 20) \<and> jsle h (Number 50) then
           (if jsgt l (Number 0.5) then ''AMBER''
            else if jsgt l (Number 0.35) then ''LIGHT BROWN'' else ''BROWN'')
         else ''BROWN'')"

definition classifyHairColor :: "color \<Rightarrow> string" where
  "classifyHairColor color =
     (let hsl = rgbToHsl (col_r color) (col_g color) (col_b color);
          h = hsl_h hsl; s = hsl_s hsl; l = hsl_l hsl
      in if jslt l (Number 0.15) then ''BLACK''
         else if jslt l (Number 0.25) then ''DARK BROWN''
         else if jsgt l (Number 0.7) \<and> jslt s (Number 0.3) then ''GRAY/WHITE''
         else if jsgt l (Number 0.6) then ''BLONDE''
         else if jsge h (Number 0) \<and> jsle h (Number 30) \<and> jsgt s (Number 0.3)
           then ''RED/AUBURN''
         else if jslt l (Number 0.4) then ''BROWN''
         else ''LIGHT BROWN'')"

definition classifyBackgroundColor :: "color \<Rightarrow> string" where
  "classifyBackgroundColor color =
     (let hsl = rgbToHsl (col_r color) (col_g color) (col_b color)
      in if jslt (hsl_s hsl) (Number 0.1) then
           (if jslt (hsl_l hsl) (Number 0.3) then ''DARK''
            else if jsgt (hsl_l hsl) (Number 0.7) then ''LIGHT''
            else ''NEUTRAL'')
         else
           let h = hsl_h hsl
           in if jslt h (Number 30) then ''WARM TONES''
              else if jslt h (Number 90) then ''YELLOW/GREEN''
              else if jslt h (Number 150) then ''GREEN/CYAN''
              else if jslt h (Number 210) then ''BLUE''
              else if jslt h (Number 270) then ''PURPLE''
              else if jslt h (Number 330) then ''PINK/MAGENTA''
              else ''RED/WARM'')"

section \<open>The colour averager\<close>

text \<open>
  The pixel buffer is a \<open>Uint8ClampedArray\<close>: a list of bytes. Reading it past its end
  gives \<open>undefined\<close>, which \<open>+=\<close> turns into NaN.
\<close>

definition pixel_at :: "8 word list \<Rightarrow> nat \<Rightarrow> jsnum" where
  "pixel_at pixels i =
     (if i < length pixels then Number (of_nat (unat (pixels ! i))) else NaN)"

text \<open>The \<open>for\<close> loop of \<open>getDominantColor\<close>, on the variables \<open>i\<close>, \<open>r\<close>, \<open>g\<close>, \<open>b\<close>, \<open>count\<close>.\<close>

function getDominantColor_loop ::
  "8 word list \<Rightarrow> nat \<Rightarrow> jsnum \<times> jsnum \<times> jsnum \<times> jsnum \<Rightarrow> jsnum \<times> jsnum \<times> jsnum \<times> jsnum" where
  "getDominantColor_loop pixels i (r, g, b, count) =
     (if i < length pixels then
        getDominantColor_loop pixels (i + 4)
          (jsadd r (pixel_at pixels i),
           jsadd g (pixel_at pixels (i + 1)),
           jsadd b (pixel_at pixels (i + 2)),
           jsadd count (Number 1))
      else (r, g, b, count))"
  by pat_completeness auto
termination
  by (relation "measure (\<lambda>(pixels, i, acc). length pixels - i)") auto

definition getDominantColor :: "8 word list \<Rightarrow> color" where
  "getDominantColor pixels =
     (case getDominantColor_loop pixels 0 (Number 0, Number 0, Number 0, Number 0) of
        (r, g, b, count) \<Rightarrow>
          \<lparr>col_r = Math_round (jsdiv r count),
           col_g = Math_round (jsdiv g count),
           col_b = Math_round (jsdiv b count)\<rparr>)"

section \<open>State and the observation log\<close>

text \<open>
  The fields of the global \<open>state\<close> object that the analysis reads and writes, with the
  initial values of its literal. \<open>addObservation\<close> takes the time stamp it would read
  from the clock as an argument; its updates of the page (the visible log) are left out,
  \<open>state.observations\<close> is the log.
\<close>

record observation =
  obs_timestamp :: string
  obs_type :: string
  obs_message :: string

record state =
  webcamActive :: bool
  detectionCanvas :: "(nat \<times> nat) option"
  eyeColor :: "string option"
  hairColor :: "string option"
  backgroundColor :: "string option"
  gazeDirection :: string
  observations :: "observation list"

definition initial_state :: state where
  "initial_state =
     \<lparr>webcamActive = False, detectionCanvas = None, eyeColor = None, hairColor = None,
      backgroundColor = None, gazeDirection = ''CENTER'', observations = []\<rparr>"

definition addObservation :: "string \<Rightarrow> state \<Rightarrow> string \<Rightarrow> string \<Rightarrow> state" where
  "addObservation timestamp st ty message =
     st\<lparr>observations := observations st @
          [\<lparr>obs_timestamp = timestamp, obs_type = ty, obs_message = message\<rparr>]\<rparr>"

section \<open>The gaze estimator\<close>

record point =
  pt_x :: jsnum
  pt_y :: jsnum

record box =
  box_x :: jsnum
  box_y :: jsnum
  box_width :: jsnum
  box_height :: jsnum

definition getCenterPoint :: "point list \<Rightarrow> point" where
  "getCenterPoint points =
     \<lparr>pt_x = jsdiv (foldl (\<lambda>sum p. jsadd sum (pt_x p)) (Number 0) points)
                   (Number (of_nat (length points))),
      pt_y = jsdiv (foldl (\<lambda>sum p. jsadd sum (pt_y p)) (Number 0) points)
                   (Number (of_nat (length points)))\<rparr>"

text \<open>
  \<open>estimateGaze\<close> returns the direction and, through \<open>addObservation\<close>, changes the
  state: the model returns both. It does not write \<open>state.gazeDirection\<close>; its caller
  \<open>processFaceDetection\<close> does. The empty string is falsy in \<open>direction || 'CENTER'\<close>.
\<close>

definition estimateGaze :: "string \<Rightarrow> state \<Rightarrow> point \<Rightarrow> point \<Rightarrow> point \<Rightarrow> box \<Rightarrow> state \<times> string" where
  "estimateGaze timestamp st leftEye rightEye nose faceBox =
     (let faceCenterX = jsadd (box_x faceBox) (jsdiv (box_width faceBox) (Number 2));
          faceCenterY = jsadd (box_y faceBox) (jsdiv (box_height faceBox) (Number 2));
          offsetX = jsdiv (jssub (pt_x nose) faceCenterX) (box_width faceBox);
          offsetY = jsdiv (jssub (pt_y nose) faceCenterY) (box_height faceBox);
          horizontal = (if jslt offsetX (Number (- 0.05)) then ''LEFT''
                        else if jsgt offsetX (Number 0.05) then ''RIGHT''
                        else ''CENTER'');
          vertical = (if jslt offsetY (Number (- 0.1)) then ''UP-''
                      else if jsgt offsetY (Number 0.1) then ''DOWN-''
                      else []);
          direction = vertical @ horizontal;
          st' = (if direction \<noteq> gazeDirection st
                 then addObservation timestamp st ''GAZE'' (''Subject looking '' @ direction)
                 else st)
      in (st', if direction = [] then ''CENTER'' else direction))"

text \<open>
  \<open>processFaceDetection\<close>, with the three landmark groups and the box of the detection
  as arguments; the updates of the page are left out.
\<close>

definition processFaceDetection :: "string \<Rightarrow> state \<Rightarrow> point list \<Rightarrow> point list \<Rightarrow> point list \<Rightarrow> box \<Rightarrow> state" where
  "processFaceDetection timestamp st leftEye rightEye nose faceBox =
     (let leftEyeCenter = getCenterPoint leftEye;
          rightEyeCenter = getCenterPoint rightEye;
          noseCenter = getCenterPoint nose
      in case estimateGaze timestamp st leftEyeCenter rightEyeCenter noseCenter faceBox of
           (st', direction) \<Rightarrow> st'\<lparr>gazeDirection := direction\<rparr>)"

section \<open>The colour analysis\<close>

text \<open>
  Each analysis function reads a region of the canvas with \<open>ctx.getImageData\<close>, which
  belongs to the browser. The model takes the buffer that call returns (\<open>.data\<close>) as an
  argument in place of \<open>ctx\<close>. No function looks at the size of the buffer.
\<close>

definition analyzeEyeColor :: "string \<Rightarrow> state \<Rightarrow> 8 word list \<Rightarrow> state" where
  "analyzeEyeColor timestamp st eyeRegion =
     (let dominantColor = getDominantColor eyeRegion;
          eyeColorName = classifyEyeColor dominantColor
      in if Some eyeColorName \<noteq> eyeColor st then
           addObservation timestamp (st\<lparr>eyeColor := Some eyeColorName\<rparr>) ''AI''
             (''Eye color detected: '' @ eyeColorName)
         else st)"

definition analyzeHairColor :: "string \<Rightarrow> state \<Rightarrow> 8 word list \<Rightarrow> state" where
  "analyzeHairColor timestamp st hairRegion =
     (let dominantColor = getDominantColor hairRegion;
          hairColorName = classifyHairColor dominantColor
      in if Some hairColorName \<noteq> hairColor st then
           addObservation timestamp (st\<lparr>hairColor := Some hairColorName\<rparr>) ''AI''
             (''Hair color detected: '' @ hairColorName)
         else st)"

text \<open>The label \<open>analyzeBackground\<close> builds from the averaged colour, before the comparison.\<close>

definition environment_label :: "color \<Rightarrow> string" where
  "environment_label dominantColor =
     (let brightness = jsdiv (jsadd (jsadd (col_r dominantColor) (col_g dominantColor))
                                    (col_b dominantColor)) (Number 3);
          environment = (if jslt brightness (Number 50) then ''DARK ENVIRONMENT''
                         else if jslt brightness (Number 100) then ''DIM LIGHTING''
                         else if jslt brightness (Number 180) then ''NORMAL LIGHTING''
                         else ''BRIGHT ENVIRONMENT'');
          colorName = classifyBackgroundColor dominantColor
      in colorName @ '' / '' @ environment)"

definition analyzeBackground :: "string \<Rightarrow> state \<Rightarrow> 8 word list \<Rightarrow> 8 word list \<Rightarrow> state" where
  "analyzeBackground timestamp st leftEdge rightEdge =
     (let combinedData = leftEdge @ rightEdge;
          dominantColor = getDominantColor combinedData;
          environment = environment_label dominantColor
      in if Some environment \<noteq> backgroundColor st then
           addObservation timestamp (st\<lparr>backgroundColor := Some environment\<rparr>) ''AI''
             (''Environment: '' @ environment)
         else st)"



section \<open>The older script\<close>

text \<open>
  The same six functions as the older version of the script (\<open>part_000\<close>) writes them:
  the classifiers read the channels into \<open>r\<close>, \<open>g\<close>, \<open>b\<close> first and nest their
  tests, and \<open>estimateGaze\<close> computes the midpoint of the eyes.
\<close>

definition old_rgbToHsl :: "jsnum \<Rightarrow> jsnum \<Rightarrow> jsnum \<Rightarrow> hsl" where
  "old_rgbToHsl r0 g0 b0 =
     (let r = jsdiv r0 (Number 255);
          g = jsdiv g0 (Number 255);
          b = jsdiv b0 (Number 255);
          mx = Math_max [r, g, b];
          mn = Math_min [r, g, b];
          l = jsdiv (jsadd mx mn) (Number 2)
      in if jseq mx mn then
           \<lparr>hsl_h = jsmul (Number 0) (Number 360), hsl_s = Number 0, hsl_l = l\<rparr>
         else
           let d = jssub mx mn;
               s = (if jsgt l (Number 0.5)
                    then jsdiv d (jssub (jssub (Number 2) mx) mn)
                    else jsdiv d (jsadd mx mn));
               h = (if jseq mx r then
                      jsdiv (jsadd (jsdiv (jssub g b) d)
                                   (if jslt g b then Number 6 else Number 0)) (Number 6)
                    else if jseq mx g then
                      jsdiv (jsadd (jsdiv (jssub b r) d) (Number 2)) (Number 6)
                    else if jseq mx b then
                      jsdiv (jsadd (jsdiv (jssub r g) d) (Number 4)) (Number 6)
                    else NaN)
           in \<lparr>hsl_h = jsmul h (Number 360), hsl_s = s, hsl_l = l\<rparr>)"

definition old_classifyEyeColor :: "color \<Rightarrow> string" where
  "old_classifyEyeColor color =
     (let r = col_r color; g = col_g color; b = col_b color;
          hsl = old_rgbToHsl r g b;
          h = hsl_h hsl; s = hsl_s hsl; l = hsl_l hsl
      in if jslt l (Number 0.2) then ''DARK BROWN''
         else if jslt s (Number 0.15) then
           (if jslt l (Number 0.4) then ''DARK GRAY'' else ''GRAY'')
         else if jsge h (Number 180) \<and> jsle h (Number 260) then
           (if jslt l (Number 0.4) then ''DARK BLUE''
            else if jsgt l (Number 0.6) then ''LIGHT BLUE''
            else ''BLUE'')
         else if jsge h (Number 80) \<and> jsle h (Number 160) then
           (if jsgt b (jsmul g (Number 0.7)) then ''HAZEL'' else ''GREEN'')
         else if jsge h (Number 20) \<and> jsle h (Number 50) then
           (if jsgt l (Number 0.5) then ''AMBER''
            else if jsgt l (Number 0.35) then ''LIGHT BROWN''
            else ''BROWN'')
         else ''BROWN'')"

definition old_classifyHairColor :: "color \<Rightarrow> string" where
  "old_classifyHairColor color =
     (let r = col_r color; g = col_g color; b = col_b color;
          hsl = old_rgbToHsl r g b;
          l = hsl_l hsl; s = hsl_s hsl; h = hsl_h hsl
      in if jslt l (Number 0.15) then ''BLACK''
         else if jslt l (Number 0.25) then ''DARK BROWN''
         else if jsgt l (Number 0.7) \<and> jslt s (Number 0.3) then ''GRAY/WHITE''
         else if jsgt l (Number 0.6) then ''BLONDE''
         else if jsge h (Number 0) \<and> jsle h (Number 30) \<and> jsgt s (Number 0.3)
           then ''RED/AUBURN''
         else if jslt l (Number 0.4) then ''BROWN''
         else ''LIGHT BROWN'')"

definition old_classifyBackgroundColor :: "color \<Rightarrow> string" where
  "old_classifyBackgroundColor color =
     (let r = col_r color; g = col_g color; b = col_b color;
          hsl = old_rgbToHsl r g b
      in if jslt (hsl_s hsl) (Number 0.1) then
           (if jslt (hsl_l hsl) (Number 0.3) then ''DARK''
            else if jsgt (hsl_l hsl) (Number 0.7) then ''LIGHT''
            else ''NEUTRAL'')
         else
           let h = hsl_h hsl
           in if jslt h (Number 30) then ''WARM TONES''
              else if jslt h (Number 90) then ''YELLOW/GREEN''
              else if jslt h (Number 150) then ''GREEN/CYAN''
              else if jslt h (Number 210) then ''BLUE''
              else if jslt h (Number 270) then ''PURPLE''
              else if jslt h (Number 330) then ''PINK/MAGENTA''
              else ''RED/WARM'')"

function old_getDominantColor_loop ::
  "8 word list \<Rightarrow> nat \<Rightarrow> jsnum \<times> jsnum \<times> jsnum \<times> jsnum \<Rightarrow> jsnum \<times> jsnum \<times> jsnum \<times> jsnum" where
  "old_getDominantColor_loop pixels i (r, g, b, count) =
     (if i < length pixels then
        old_getDominantColor_loop pixels (i + 4)
          (jsadd r (pixel_at pixels i),
           jsadd g (pixel_at pixels (i + 1)),
           jsadd b (pixel_at pixels (i + 2)),
           jsadd count (Number 1))
      else (r, g, b, count))"
  by pat_completeness auto
termination
  by (relation "measure (\<lambda>(pixels, i, acc). length pixels - i)") auto

definition old_getDominantColor :: "8 word list \<Rightarrow> color" where
  "old_getDominantColor pixels =
     (case old_getDominantColor_loop pixels 0 (Number 0, Number 0, Number 0, Number 0) of
        (r, g, b, count) \<Rightarrow>
          \<lparr>col_r = Math_round (jsdiv r count),
           col_g = Math_round (jsdiv g count),
           col_b = Math_round (jsdiv b count)\<rparr>)"

definition old_estimateGaze :: "string \<Rightarrow> state \<Rightarrow> point \<Rightarrow> point \<Rightarrow> point \<Rightarrow> box \<Rightarrow> state \<times> string" where
  "old_estimateGaze timestamp st leftEye rightEye nose faceBox =
     (let faceCenterX = jsadd (box_x faceBox) (jsdiv (box_width faceBox) (Number 2));
          faceCenterY = jsadd (box_y faceBox) (jsdiv (box_height faceBox) (Number 2));
          eyeMidX = jsdiv (jsadd (pt_x leftEye) (pt_x rightEye)) (Number 2);
          eyeMidY = jsdiv (jsadd (pt_y leftEye) (pt_y rightEye)) (Number 2);
          offsetX = jsdiv (jssub (pt_x nose) faceCenterX) (box_width faceBox);
          offsetY = jsdiv (jssub (pt_y nose) faceCenterY) (box_height faceBox);
          horizontal = (if jslt offsetX (Number (- 0.05)) then ''LEFT''
                        else if jsgt offsetX (Number 0.05) then ''RIGHT''
                        else ''CENTER'');
          vertical = (if jslt offsetY (Number (- 0.1)) then ''UP-''
                      else if jsgt offsetY (Number 0.1) then ''DOWN-''
                      else []);
          direction = vertical @ horizontal;
          st' = (if direction \<noteq> gazeDirection st
                 then addObservation timestamp st ''GAZE'' (''Subject looking '' @ direction)
                 else st)
      in (st', if direction = [] then ''CENTER'' else direction))"

section \<open>Notions of the specification\<close>

text \<open>A pixel \<open>(r, g, b, a)\<close> and the interleaved buffer of a list of pixels.\<close>

type_synonym pixel = "8 word \<times> 8 word \<times> 8 word \<times> 8 word"

fun rgba_buffer :: "pixel list \<Rightarrow> 8 word list" where
  "rgba_buffer [] = []"
| "rgba_buffer ((r, g, b, a) # ps) = r # g # b # a # rgba_buffer ps"

fun px_r :: "pixel \<Rightarrow> rat" where
  "px_r (r, g, b, a) = of_nat (unat r)"

fun px_g :: "pixel \<Rightarrow> rat" where
  "px_g (r, g, b, a) = of_nat (unat g)"

fun px_b :: "pixel \<Rightarrow> rat" where
  "px_b (r, g, b, a) = of_nat (unat b)"

text \<open>The unweighted mean of one channel over the pixels.\<close>

definition channel_mean :: "(pixel \<Rightarrow> rat) \<Rightarrow> pixel list \<Rightarrow> rat" where
  "channel_mean ch ps = sum_list (map ch ps) / of_nat (length ps)"

text \<open>
  The number of reports change-triggered reporting makes for a sequence of labels: one
  for each label that differs from the one before it, the first compared with the stored
  label.
\<close>

fun label_changes :: "'a \<Rightarrow> 'a list \<Rightarrow> nat" where
  "label_changes prev [] = 0"
| "label_changes prev (x # xs) = (if x \<noteq> prev then 1 else 0) + label_changes x xs"

text \<open>A sequence of calls of each reporting function, each with its time stamp.\<close>

fun run_analyzeEyeColor :: "state \<Rightarrow> (string \<times> 8 word list) list \<Rightarrow> state" where
  "run_analyzeEyeColor st [] = st"
| "run_analyzeEyeColor st ((timestamp, eyeRegion) # calls) =
     run_analyzeEyeColor (analyzeEyeColor timestamp st eyeRegion) calls"

fun run_analyzeHairColor :: "state \<Rightarrow> (string \<times> 8 word list) list \<Rightarrow> state" where
  "run_analyzeHairColor st [] = st"
| "run_analyzeHairColor st ((timestamp, hairRegion) # calls) =
     run_analyzeHairColor (analyzeHairColor timestamp st hairRegion) calls"

fun run_analyzeBackground :: "state \<Rightarrow> (string \<times> 8 word list \<times> 8 word list) list \<Rightarrow> state" where
  "run_analyzeBackground st [] = st"
| "run_analyzeBackground st ((timestamp, leftEdge, rightEdge) # calls) =
     run_analyzeBackground (analyzeBackground timestamp st leftEdge rightEdge) calls"

type_synonym detection = "point list \<times> point list \<times> point list \<times> box"

fun run_processFaceDetection :: "state \<Rightarrow> (string \<times> detection) list \<Rightarrow> state" where
  "run_processFaceDetection st [] = st"
| "run_processFaceDetection st ((timestamp, leftEye, rightEye, nose, faceBox) # calls) =
     run_processFaceDetection
       (processFaceDetection timestamp st leftEye rightEye nose faceBox) calls"

text \<open>
  The label each call computes from its input. The direction \<open>estimateGaze\<close> returns
  does not depend on the state it is called in, so the initial state stands for any.
\<close>

definition eye_label :: "string \<times> 8 word list \<Rightarrow> string" where
  "eye_label call = classifyEyeColor (getDominantColor (snd call))"

definition hair_label :: "string \<times> 8 word list \<Rightarrow> string" where
  "hair_label call = classifyHairColor (getDominantColor (snd call))"

definition background_label :: "string \<times> 8 word list \<times> 8 word list \<Rightarrow> string" where
  "background_label call =
     environment_label (getDominantColor (fst (snd call) @ snd (snd call)))"

definition gaze_label :: "string \<times> detection \<Rightarrow> string" where
  "gaze_label call =
     (case call of (timestamp, leftEye, rightEye, nose, faceBox) \<Rightarrow>
        snd (estimateGaze timestamp initial_state (getCenterPoint leftEye)
               (getCenterPoint rightEye) (getCenterPoint nose) faceBox))"



section \<open>Finite arithmetic\<close>

lemma jsmax2_Number [simp]: "jsmax2 (Number a) (Number b) = Number (max a b)"
  by (simp add: max_def)

lemma jsmin2_Number [simp]: "jsmin2 (Number a) (Number b) = Number (min a b)"
  by (simp add: min_def)

lemma Math_max_Number3 [simp]:
  "Math_max [Number a, Number b, Number c] = Number (max (max a b) c)"
  by (simp add: Math_max_def)

lemma Math_min_Number3 [simp]:
  "Math_min [Number a, Number b, Number c] = Number (min (min a b) c)"
  by (simp add: Math_min_def)

lemma jsle_Number [simp]: "jsle (Number a) (Number b) = (a \<le> b)"
  by (auto simp: jsle_def)

lemma jsge_Number [simp]: "jsge (Number a) (Number b) = (b \<le> a)"
  by (simp add: jsge_def)

lemma jsgt_Number [simp]: "jsgt (Number a) (Number b) = (b < a)"
  by (simp add: jsgt_def)

lemma jssub_Number [simp]: "jssub (Number a) (Number b) = Number (a - b)"
  by (simp add: jssub_def)

section \<open>The HSL converter on colours in range\<close>








section \<open>The classifiers on colours in range\<close>






section \<open>The colour averager on whole pixels\<close>

declare getDominantColor_loop.simps [simp del]

lemma pixel_at_append_0 [simp]:
  "pixel_at (pre @ x # rest) (length pre) = Number (of_nat (unat x))"
  by (simp add: pixel_at_def)

lemma pixel_at_append_1 [simp]:
  "pixel_at (pre @ x # y # rest) (Suc (length pre)) = Number (of_nat (unat y))"
  by (simp add: pixel_at_def nth_append)

lemma pixel_at_append_2 [simp]:
  "pixel_at (pre @ x # y # z # rest) (Suc (Suc (length pre))) = Number (of_nat (unat z))"
  by (simp add: pixel_at_def nth_append)

text \<open>
  The loop started at a pixel boundary adds, to each accumulator, the sum of its channel
  over the remaining pixels, and their number to the count.
\<close>

lemma getDominantColor_loop_rgba:
  "getDominantColor_loop (pre @ rgba_buffer ps) (length pre)
     (Number r, Number g, Number b, Number c) =
   (Number (r + sum_list (map px_r ps)), Number (g + sum_list (map px_g ps)),
    Number (b + sum_list (map px_b ps)), Number (c + of_nat (length ps)))"
proof (induction ps arbitrary: pre r g b c)
  case Nil
  show ?case by (subst getDominantColor_loop.simps) simp
next
  case (Cons p ps)
  obtain r0 g0 b0 a0 where p: "p = (r0, g0, b0, a0)" by (cases p) auto
  have split: "pre @ r0 # g0 # b0 # a0 # rgba_buffer ps = (pre @ [r0, g0, b0, a0]) @ rgba_buffer ps"
    by simp
  have len: "length pre + 4 = length (pre @ [r0, g0, b0, a0])" by simp
  have step: "getDominantColor_loop (pre @ rgba_buffer (p # ps)) (length pre)
     (Number r, Number g, Number b, Number c) =
     getDominantColor_loop ((pre @ [r0, g0, b0, a0]) @ rgba_buffer ps)
       (length (pre @ [r0, g0, b0, a0]))
       (Number (r + of_nat (unat r0)), Number (g + of_nat (unat g0)),
        Number (b + of_nat (unat b0)), Number (c + 1))"
    unfolding p rgba_buffer.simps
    by (subst getDominantColor_loop.simps) (simp only: split len[symmetric], simp)
  show ?case
    unfolding step Cons.IH by (simp add: p algebra_simps)
qed

lemma getDominantColor_rgba:
  assumes "ps \<noteq> []"
  shows "getDominantColor (rgba_buffer ps) =
    \<lparr>col_r = Number (of_int \<lfloor>channel_mean px_r ps + 1 / 2\<rfloor>),
     col_g = Number (of_int \<lfloor>channel_mean px_g ps + 1 / 2\<rfloor>),
     col_b = Number (of_int \<lfloor>channel_mean px_b ps + 1 / 2\<rfloor>)\<rparr>"
proof -
  have "getDominantColor_loop (rgba_buffer ps) 0 (Number 0, Number 0, Number 0, Number 0) =
    (Number (sum_list (map px_r ps)), Number (sum_list (map px_g ps)),
     Number (sum_list (map px_b ps)), Number (of_nat (length ps)))"
    using getDominantColor_loop_rgba[of "[]" ps 0 0 0 0] by simp
  then show ?thesis using assms
    by (simp add: getDominantColor_def channel_mean_def)
qed

lemma channel_mean_uniform:
  assumes "ps \<noteq> []" "\<forall>p \<in> set ps. ch p = c"
  shows "channel_mean ch ps = c"
proof -
  have "sum_list (map ch ps) = of_nat (length ps) * c" using assms(2)
    by (induction ps) (simp_all add: algebra_simps)
  then show ?thesis using assms(1) by (simp add: channel_mean_def)
qed

lemma round_half_up_near:
  fixes x :: rat
  shows "\<bar>of_int \<lfloor>x + 1 / 2\<rfloor> - x\<bar> \<le> 1 / 2"
  by linarith

lemma getDominantColor_uniform:
  assumes "ps \<noteq> []" and same: "\<forall>p \<in> set ps. \<exists>a. p = (r, g, b, a)"
  shows "getDominantColor (rgba_buffer ps) =
           \<lparr>col_r = Number (of_nat (unat r)), col_g = Number (of_nat (unat g)),
            col_b = Number (of_nat (unat b))\<rparr>"
proof -
  have "\<forall>p \<in> set ps. px_r p = of_nat (unat r)" using same by auto
  then have mr: "channel_mean px_r ps = of_nat (unat r)"
    using channel_mean_uniform[OF assms(1)] by blast
  have "\<forall>p \<in> set ps. px_g p = of_nat (unat g)" using same by auto
  then have mg: "channel_mean px_g ps = of_nat (unat g)"
    using channel_mean_uniform[OF assms(1)] by blast
  have "\<forall>p \<in> set ps. px_b p = of_nat (unat b)" using same by auto
  then have mb: "channel_mean px_b ps = of_nat (unat b)"
    using channel_mean_uniform[OF assms(1)] by blast
  have fl: "\<lfloor>(of_nat n :: rat) + 1 / 2\<rfloor> = int n" for n
    by linarith
  show ?thesis unfolding getDominantColor_rgba[OF assms(1)] mr mg mb fl by simp
qed

text \<open>
  Claim C5. On the interleaved buffer of a non-empty list of RGBA pixels,
  \<open>getDominantColor\<close> returns, for each of the channels R, G and B, the unweighted mean of
  that channel over all pixels rounded to a nearest integer (at most one half away from
  the mean); the alpha bytes play no part. When every pixel has the same (r, g, b), the
  result is exactly that colour.
\<close>

theorem getDominantColor_mean:
  assumes "ps \<noteq> []"
  shows "getDominantColor (rgba_buffer ps) =
           \<lparr>col_r = Number (of_int \<lfloor>channel_mean px_r ps + 1 / 2\<rfloor>),
            col_g = Number (of_int \<lfloor>channel_mean px_g ps + 1 / 2\<rfloor>),
            col_b = Number (of_int \<lfloor>channel_mean px_b ps + 1 / 2\<rfloor>)\<rparr>
       \<and> \<bar>of_int \<lfloor>channel_mean px_r ps + 1 / 2\<rfloor> - channel_mean px_r ps\<bar> \<le> 1 / 2
       \<and> \<bar>of_int \<lfloor>channel_mean px_g ps + 1 / 2\<rfloor> - channel_mean px_g ps\<bar> \<le> 1 / 2
       \<and> \<bar>of_int \<lfloor>channel_mean px_b ps + 1 / 2\<rfloor> - channel_mean px_b ps\<bar> \<le> 1 / 2
       \<and> (\<forall>r g b. (\<forall>p \<in> set ps. \<exists>a. p = (r, g, b, a)) \<longrightarrow>
            getDominantColor (rgba_buffer ps) =
              \<lparr>col_r = Number (of_nat (unat r)), col_g = Number (of_nat (unat g)),
               col_b = Number (of_nat (unat b))\<rparr>)"
proof -
  note avg = getDominantColor_rgba[OF assms]
  have uniform: "getDominantColor (rgba_buffer ps) =
              \<lparr>col_r = Number (of_nat (unat r)), col_g = Number (of_nat (unat g)),
               col_b = Number (of_nat (unat b))\<rparr>"
    if "\<forall>p \<in> set ps. \<exists>a. p = (r, g, b, a)" for r g b
    using getDominantColor_uniform[OF assms that] .
  from avg round_half_up_near[of "channel_mean px_r ps"]
    round_half_up_near[of "channel_mean px_g ps"]
    round_half_up_near[of "channel_mean px_b ps"] uniform
  show ?thesis by blast
qed

theorem getDominantColor_mean_witness:
  "getDominantColor (rgba_buffer [(10, 20, 30, 255), (10, 20, 30, 0)]) =
     \<lparr>col_r = Number 10, col_g = Number 20, col_b = Number 30\<rparr>"
proof -
  have ne: "[(10, 20, 30, 255), (10, 20, 30, 0 :: 8 word)] \<noteq> ([] :: pixel list)" by simp
  have same: "\<forall>p \<in> set [(10, 20, 30, 255), (10, 20, 30, 0 :: 8 word)].
                \<exists>a. p = (10 :: 8 word, 20 :: 8 word, 30 :: 8 word, a)" by simp
  from getDominantColor_mean[OF ne] same
  have "getDominantColor (rgba_buffer [(10, 20, 30, 255), (10, 20, 30, 0)]) =
              \<lparr>col_r = Number (of_nat (unat (10 :: 8 word))),
               col_g = Number (of_nat (unat (20 :: 8 word))),
               col_b = Number (of_nat (unat (30 :: 8 word)))\<rparr>"
    by blast
  then show ?thesis by simp
qed

section \<open>The gaze estimator\<close>

lemma estimateGaze_label:
  "snd (estimateGaze timestamp st leftEye rightEye nose faceBox) =
     (let offsetX = jsdiv (jssub (pt_x nose)
                       (jsadd (box_x faceBox) (jsdiv (box_width faceBox) (Number 2))))
                     (box_width faceBox);
          offsetY = jsdiv (jssub (pt_y nose)
                       (jsadd (box_y faceBox) (jsdiv (box_height faceBox) (Number 2))))
                     (box_height faceBox)
      in (if jslt offsetY (Number (- 0.1)) then ''UP-''
          else if jsgt offsetY (Number 0.1) then ''DOWN-'' else [])
         @ (if jslt offsetX (Number (- 0.05)) then ''LEFT''
            else if jsgt offsetX (Number 0.05) then ''RIGHT'' else ''CENTER''))"
  by (simp add: estimateGaze_def Let_def)







section \<open>The background label\<close>








section \<open>Change-triggered reporting\<close>

lemma analyzeEyeColor_step:
  "observations (analyzeEyeColor timestamp st eyeRegion) =
     observations st @
       (if Some (eye_label (timestamp, eyeRegion)) \<noteq> eyeColor st
        then [\<lparr>obs_timestamp = timestamp, obs_type = ''AI'',
               obs_message = ''Eye color detected: '' @ eye_label (timestamp, eyeRegion)\<rparr>]
        else [])"
  "eyeColor (analyzeEyeColor timestamp st eyeRegion) = Some (eye_label (timestamp, eyeRegion))"
  by (simp_all add: analyzeEyeColor_def eye_label_def Let_def addObservation_def)

lemma analyzeHairColor_step:
  "observations (analyzeHairColor timestamp st hairRegion) =
     observations st @
       (if Some (hair_label (timestamp, hairRegion)) \<noteq> hairColor st
        then [\<lparr>obs_timestamp = timestamp, obs_type = ''AI'',
               obs_message = ''Hair color detected: '' @ hair_label (timestamp, hairRegion)\<rparr>]
        else [])"
  "hairColor (analyzeHairColor timestamp st hairRegion) = Some (hair_label (timestamp, hairRegion))"
  by (simp_all add: analyzeHairColor_def hair_label_def Let_def addObservation_def)

lemma analyzeBackground_step:
  "observations (analyzeBackground timestamp st leftEdge rightEdge) =
     observations st @
       (if Some (background_label (timestamp, leftEdge, rightEdge)) \<noteq> backgroundColor st
        then [\<lparr>obs_timestamp = timestamp, obs_type = ''AI'',
               obs_message = ''Environment: '' @ background_label (timestamp, leftEdge, rightEdge)\<rparr>]
        else [])"
  "backgroundColor (analyzeBackground timestamp st leftEdge rightEdge) =
     Some (background_label (timestamp, leftEdge, rightEdge))"
  by (simp_all add: analyzeBackground_def background_label_def Let_def addObservation_def)

lemma estimateGaze_snd_indep:
  "snd (estimateGaze timestamp st leftEye rightEye nose faceBox) =
   snd (estimateGaze timestamp' st' leftEye' rightEye' nose faceBox)"
  unfolding estimateGaze_label ..

lemma estimateGaze_fst:
  "fst (estimateGaze timestamp st leftEye rightEye nose faceBox) =
     (if snd (estimateGaze timestamp st leftEye rightEye nose faceBox) \<noteq> gazeDirection st
      then addObservation timestamp st ''GAZE''
             (''Subject looking '' @ snd (estimateGaze timestamp st leftEye rightEye nose faceBox))
      else st)"
  by (simp add: estimateGaze_def Let_def)

lemma processFaceDetection_step:
  "observations (processFaceDetection timestamp st leftEye rightEye nose faceBox) =
     observations st @
       (if gaze_label (timestamp, leftEye, rightEye, nose, faceBox) \<noteq> gazeDirection st
        then [\<lparr>obs_timestamp = timestamp, obs_type = ''GAZE'',
               obs_message = ''Subject looking '' @
                 gaze_label (timestamp, leftEye, rightEye, nose, faceBox)\<rparr>]
        else [])"
  "gazeDirection (processFaceDetection timestamp st leftEye rightEye nose faceBox) =
     gaze_label (timestamp, leftEye, rightEye, nose, faceBox)"
proof -
  let ?e = "estimateGaze timestamp st (getCenterPoint leftEye) (getCenterPoint rightEye)
              (getCenterPoint nose) faceBox"
  have lab: "snd ?e = gaze_label (timestamp, leftEye, rightEye, nose, faceBox)"
    unfolding gaze_label_def prod.case by (rule estimateGaze_snd_indep)
  have p: "processFaceDetection timestamp st leftEye rightEye nose faceBox =
      (fst ?e)\<lparr>gazeDirection := snd ?e\<rparr>"
    by (simp add: processFaceDetection_def Let_def split_beta)
  show "observations (processFaceDetection timestamp st leftEye rightEye nose faceBox) =
     observations st @
       (if gaze_label (timestamp, leftEye, rightEye, nose, faceBox) \<noteq> gazeDirection st
        then [\<lparr>obs_timestamp = timestamp, obs_type = ''GAZE'',
               obs_message = ''Subject looking '' @
                 gaze_label (timestamp, leftEye, rightEye, nose, faceBox)\<rparr>]
        else [])"
    unfolding p estimateGaze_fst lab by (simp add: addObservation_def)
  show "gazeDirection (processFaceDetection timestamp st leftEye rightEye nose faceBox) =
     gaze_label (timestamp, leftEye, rightEye, nose, faceBox)"
    unfolding p lab by simp
qed

lemma run_analyzeEyeColor_count:
  "length (observations (run_analyzeEyeColor st calls)) =
     length (observations st) + label_changes (eyeColor st) (map (\<lambda>c. Some (eye_label c)) calls)"
proof (induction calls arbitrary: st)
  case Nil
  show ?case by simp
next
  case (Cons c calls)
  obtain timestamp eyeRegion where c: "c = (timestamp, eyeRegion)" by (cases c)
  show ?case unfolding c by (simp add: Cons.IH analyzeEyeColor_step)
qed

lemma run_analyzeHairColor_count:
  "length (observations (run_analyzeHairColor st calls)) =
     length (observations st) + label_changes (hairColor st) (map (\<lambda>c. Some (hair_label c)) calls)"
proof (induction calls arbitrary: st)
  case Nil
  show ?case by simp
next
  case (Cons c calls)
  obtain timestamp hairRegion where c: "c = (timestamp, hairRegion)" by (cases c)
  show ?case unfolding c by (simp add: Cons.IH analyzeHairColor_step)
qed

lemma run_analyzeBackground_count:
  "length (observations (run_analyzeBackground st calls)) =
     length (observations st)
       + label_changes (backgroundColor st) (map (\<lambda>c. Some (background_label c)) calls)"
proof (induction calls arbitrary: st)
  case Nil
  show ?case by simp
next
  case (Cons c calls)
  obtain timestamp leftEdge rightEdge where c: "c = (timestamp, leftEdge, rightEdge)"
    by (cases c)
  show ?case unfolding c by (simp add: Cons.IH analyzeBackground_step)
qed

lemma run_processFaceDetection_count:
  "length (observations (run_processFaceDetection st calls)) =
     length (observations st) + label_changes (gazeDirection st) (map gaze_label calls)"
proof (induction calls arbitrary: st)
  case Nil
  show ?case by simp
next
  case (Cons c calls)
  obtain timestamp leftEye rightEye nose faceBox
    where c: "c = (timestamp, leftEye, rightEye, nose, faceBox)"
    by (cases c)
  show ?case unfolding c by (simp add: Cons.IH processFaceDetection_step)
qed

text \<open>
  Claim C4, as stated, fails for the gaze: the stored direction starts as CENTER, so a
  first detection whose direction is CENTER reports nothing, and neither does a second
  one with the same input.
\<close>

theorem first_gaze_CENTER_counterexample:
  "gaze_label (''12:00:00'', [\<lparr>pt_x = Number 30, pt_y = Number 40\<rparr>],
       [\<lparr>pt_x = Number 70, pt_y = Number 40\<rparr>], [\<lparr>pt_x = Number 50, pt_y = Number 50\<rparr>],
       \<lparr>box_x = Number 0, box_y = Number 0, box_width = Number 100, box_height = Number 100\<rparr>)
     = ''CENTER''
   \<and> observations (run_processFaceDetection initial_state
       [(''12:00:00'', [\<lparr>pt_x = Number 30, pt_y = Number 40\<rparr>],
           [\<lparr>pt_x = Number 70, pt_y = Number 40\<rparr>], [\<lparr>pt_x = Number 50, pt_y = Number 50\<rparr>],
           \<lparr>box_x = Number 0, box_y = Number 0, box_width = Number 100,
            box_height = Number 100\<rparr>),
        (''12:00:01'', [\<lparr>pt_x = Number 30, pt_y = Number 40\<rparr>],
           [\<lparr>pt_x = Number 70, pt_y = Number 40\<rparr>], [\<lparr>pt_x = Number 50, pt_y = Number 50\<rparr>],
           \<lparr>box_x = Number 0, box_y = Number 0, box_width = Number 100,
            box_height = Number 100\<rparr>)]) = []"
  by (simp add: gaze_label_def processFaceDetection_def estimateGaze_def getCenterPoint_def
      initial_state_def Let_def jsgt_def)

text \<open>
  Claim C4, amended. Each reporting function appends one entry exactly when the label it
  computes differs from the stored one, and stores the label; so a sequence of calls
  appends one entry for each label that differs from the label before it, the first
  compared with the stored label. From the initial state the first eye, hair and
  background classification appends one entry (nothing is stored yet), and the first
  gaze classification appends one unless its direction is CENTER, the direction stored
  at the start.
\<close>

theorem change_triggered_reporting:
  "observations (analyzeEyeColor timestamp st eyeRegion) =
     observations st @
       (if Some (eye_label (timestamp, eyeRegion)) \<noteq> eyeColor st
        then [\<lparr>obs_timestamp = timestamp, obs_type = ''AI'',
               obs_message = ''Eye color detected: '' @ eye_label (timestamp, eyeRegion)\<rparr>]
        else [])
   \<and> eyeColor (analyzeEyeColor timestamp st eyeRegion) = Some (eye_label (timestamp, eyeRegion))
   \<and> observations (analyzeHairColor timestamp st hairRegion) =
     observations st @
       (if Some (hair_label (timestamp, hairRegion)) \<noteq> hairColor st
        then [\<lparr>obs_timestamp = timestamp, obs_type = ''AI'',
               obs_message = ''Hair color detected: '' @ hair_label (timestamp, hairRegion)\<rparr>]
        else [])
   \<and> hairColor (analyzeHairColor timestamp st hairRegion) =
       Some (hair_label (timestamp, hairRegion))
   \<and> observations (analyzeBackground timestamp st leftEdge rightEdge) =
     observations st @
       (if Some (background_label (timestamp, leftEdge, rightEdge)) \<noteq> backgroundColor st
        then [\<lparr>obs_timestamp = timestamp, obs_type = ''AI'',
               obs_message = ''Environment: '' @
                 background_label (timestamp, leftEdge, rightEdge)\<rparr>]
        else [])
   \<and> backgroundColor (analyzeBackground timestamp st leftEdge rightEdge) =
       Some (background_label (timestamp, leftEdge, rightEdge))
   \<and> observations (processFaceDetection timestamp st leftEye rightEye nose faceBox) =
     observations st @
       (if gaze_label (timestamp, leftEye, rightEye, nose, faceBox) \<noteq> gazeDirection st
        then [\<lparr>obs_timestamp = timestamp, obs_type = ''GAZE'',
               obs_message = ''Subject looking '' @
                 gaze_label (timestamp, leftEye, rightEye, nose, faceBox)\<rparr>]
        else [])
   \<and> gazeDirection (processFaceDetection timestamp st leftEye rightEye nose faceBox) =
       gaze_label (timestamp, leftEye, rightEye, nose, faceBox)
   \<and> length (observations (run_analyzeEyeColor st eyeCalls)) =
       length (observations st)
         + label_changes (eyeColor st) (map (\<lambda>c. Some (eye_label c)) eyeCalls)
   \<and> length (observations (run_analyzeHairColor st hairCalls)) =
       length (observations st)
         + label_changes (hairColor st) (map (\<lambda>c. Some (hair_label c)) hairCalls)
   \<and> length (observations (run_analyzeBackground st backgroundCalls)) =
       length (observations st)
         + label_changes (backgroundColor st)
             (map (\<lambda>c. Some (background_label c)) backgroundCalls)
   \<and> length (observations (run_processFaceDetection st gazeCalls)) =
       length (observations st) + label_changes (gazeDirection st) (map gaze_label gazeCalls)
   \<and> length (observations (analyzeEyeColor timestamp initial_state eyeRegion)) = 1
   \<and> length (observations (analyzeHairColor timestamp initial_state hairRegion)) = 1
   \<and> length (observations (analyzeBackground timestamp initial_state leftEdge rightEdge)) = 1
   \<and> length (observations
         (processFaceDetection timestamp initial_state leftEye rightEye nose faceBox)) =
       (if gaze_label (timestamp, leftEye, rightEye, nose, faceBox) = ''CENTER'' then 0 else 1)"
proof -
  have first_eye: "length (observations (analyzeEyeColor timestamp initial_state eyeRegion)) = 1"
    unfolding analyzeEyeColor_step by (simp add: initial_state_def)
  have first_hair: "length (observations (analyzeHairColor timestamp initial_state hairRegion)) = 1"
    unfolding analyzeHairColor_step by (simp add: initial_state_def)
  have first_background:
    "length (observations (analyzeBackground timestamp initial_state leftEdge rightEdge)) = 1"
    unfolding analyzeBackground_step by (simp add: initial_state_def)
  have first_gaze: "length (observations
         (processFaceDetection timestamp initial_state leftEye rightEye nose faceBox)) =
       (if gaze_label (timestamp, leftEye, rightEye, nose, faceBox) = ''CENTER'' then 0 else 1)"
    unfolding processFaceDetection_step by (simp add: initial_state_def)
  show ?thesis
    by (intro conjI analyzeEyeColor_step analyzeHairColor_step analyzeBackground_step
        processFaceDetection_step run_analyzeEyeColor_count run_analyzeHairColor_count
        run_analyzeBackground_count run_processFaceDetection_count
        first_eye first_hair first_background first_gaze)
qed

theorem change_triggered_reporting_witness:
  "length (observations (run_analyzeEyeColor initial_state
      [(''12:00:00'', rgba_buffer [(90, 60, 30, 255)]),
       (''12:00:02'', rgba_buffer [(90, 60, 30, 255)])])) = 1"
proof -
  have same: "eye_label (''12:00:02'', rgba_buffer [(90, 60, 30, 255)]) =
      eye_label (''12:00:00'', rgba_buffer [(90, 60, 30, 255)])"
    by (simp add: eye_label_def)
  from change_triggered_reporting[of _ initial_state _ _ _ _ _ _ _ _
      "[(''12:00:00'', rgba_buffer [(90, 60, 30, 255)]),
        (''12:00:02'', rgba_buffer [(90, 60, 30, 255)])]"]
  have eq: "length (observations (run_analyzeEyeColor initial_state
      [(''12:00:00'', rgba_buffer [(90, 60, 30, 255)]),
       (''12:00:02'', rgba_buffer [(90, 60, 30, 255)])])) =
     length (observations initial_state)
       + label_changes (eyeColor initial_state)
           (map (\<lambda>c. Some (eye_label c))
             [(''12:00:00'', rgba_buffer [(90, 60, 30, 255)]),
              (''12:00:02'', rgba_buffer [(90, 60, 30, 255)])])"
    by blast
  have rhs: "length (observations initial_state)
       + label_changes (eyeColor initial_state)
           (map (\<lambda>c. Some (eye_label c))
             [(''12:00:00'', rgba_buffer [(90, 60, 30, 255)]),
              (''12:00:02'', rgba_buffer [(90, 60, 30, 255)])]) = 1"
    unfolding list.map label_changes.simps same by (simp add: initial_state_def)
  show ?thesis by (simp only: eq rhs)
qed

section \<open>The divisor of the colour averager\<close>











section \<open>The older script and the newer one\<close>

declare old_getDominantColor_loop.simps [simp del]

lemma old_rgbToHsl_eq: "old_rgbToHsl r g b = rgbToHsl r g b"
  unfolding old_rgbToHsl_def rgbToHsl_def ..

lemma old_getDominantColor_loop_eq:
  "old_getDominantColor_loop pixels i acc = getDominantColor_loop pixels i acc"
proof (induction pixels i acc rule: getDominantColor_loop.induct)
  case (1 pixels i r g b count)
  show ?case
  proof (cases "i < length pixels")
    case True
    show ?thesis
      by (subst old_getDominantColor_loop.simps, subst getDominantColor_loop.simps)
         (simp only: True if_True "1.IH"[OF True])
  next
    case False
    show ?thesis
      by (subst old_getDominantColor_loop.simps, subst getDominantColor_loop.simps)
         (simp only: False if_False)
  qed
qed

lemma old_getDominantColor_eq: "old_getDominantColor pixels = getDominantColor pixels"
  unfolding old_getDominantColor_def getDominantColor_def old_getDominantColor_loop_eq ..

lemma old_classifyEyeColor_eq: "old_classifyEyeColor color = classifyEyeColor color"
  unfolding old_classifyEyeColor_def classifyEyeColor_def old_rgbToHsl_eq Let_def ..

lemma old_classifyHairColor_eq: "old_classifyHairColor color = classifyHairColor color"
  unfolding old_classifyHairColor_def classifyHairColor_def old_rgbToHsl_eq Let_def ..

lemma old_classifyBackgroundColor_eq:
  "old_classifyBackgroundColor color = classifyBackgroundColor color"
  unfolding old_classifyBackgroundColor_def classifyBackgroundColor_def old_rgbToHsl_eq Let_def ..

lemma old_estimateGaze_eq:
  "old_estimateGaze timestamp st leftEye rightEye nose faceBox =
   estimateGaze timestamp st leftEye rightEye nose faceBox"
  unfolding old_estimateGaze_def estimateGaze_def Let_def ..

text \<open>
  Claim C10. The functions \<open>getDominantColor\<close>, \<open>rgbToHsl\<close>, \<open>classifyEyeColor\<close>,
  \<open>classifyHairColor\<close>, \<open>classifyBackgroundColor\<close> and \<open>estimateGaze\<close> of the older
  script return, on every input, what the functions of the same name in the newer script
  return; for \<open>estimateGaze\<close> this includes the state with its observation log. The
  midpoint of the eyes the older \<open>estimateGaze\<close> computes has no part in its result.
\<close>

theorem old_script_equal:
  "old_getDominantColor = getDominantColor
   \<and> old_rgbToHsl = rgbToHsl
   \<and> old_classifyEyeColor = classifyEyeColor
   \<and> old_classifyHairColor = classifyHairColor
   \<and> old_classifyBackgroundColor = classifyBackgroundColor
   \<and> old_estimateGaze = estimateGaze"
  by (intro conjI ext old_getDominantColor_eq old_rgbToHsl_eq old_classifyEyeColor_eq
      old_classifyHairColor_eq old_classifyBackgroundColor_eq old_estimateGaze_eq)

theorem old_script_equal_witness:
  "old_classifyBackgroundColor \<lparr>col_r = Number 0, col_g = Number 0, col_b = Number 255\<rparr> =
     ''PURPLE''
   \<and> old_rgbToHsl (Number 0) (Number 0) (Number 255) =
     \<lparr>hsl_h = Number 240, hsl_s = Number 1, hsl_l = Number (1 / 2)\<rparr>"
proof -
  have hsl: "rgbToHsl (Number 0) (Number 0) (Number 255) =
     \<lparr>hsl_h = Number 240, hsl_s = Number 1, hsl_l = Number (1 / 2)\<rparr>"
    by (simp add: rgbToHsl_def Let_def)
  have "classifyBackgroundColor \<lparr>col_r = Number 0, col_g = Number 0, col_b = Number 255\<rparr> =
     ''PURPLE''"
    by (simp add: classifyBackgroundColor_def hsl Let_def)
  with hsl old_script_equal show ?thesis by simp
qed

section \<open>The inverse conversion\<close>




















end
